theory Spec2Isabelle
  imports Main "HOL-Library.Sublist" "HOL-Library.List_Lexorder" "HOL-Library.Multiset"
begin

section \<open>Python values\<close>

text \<open>
  A Python \<open>str\<close> is a sequence of Unicode code points: \<open>len\<close>, slicing, \<open>in\<close> and
  \<open>\<le>\<close> all work on code points. The model keeps a string as the list of its code points
  (natural numbers), so that a character beyond ASCII is one element, as in Python.
  \<open>ascii\<close> reads an ASCII literal of the source into that representation.
\<close>

type_synonym str = "nat list"

definition ascii :: "string \<Rightarrow> str" where
  "ascii s = map of_char s"

text \<open>Truthiness of \<open>d.get(key)\<close> for a string field: absent, \<open>None\<close> and \<open>""\<close> are falsy.\<close>

fun truthy :: "str option \<Rightarrow> bool" where
  "truthy None = False"
| "truthy (Some s) = (s \<noteq> [])"

text \<open>\<open>needle in haystack\<close> on strings: some suffix of the haystack starts with the needle.\<close>

fun str_in :: "str \<Rightarrow> str \<Rightarrow> bool" where
  "str_in pat [] = (pat = [])"
| "str_in pat (c # cs) = (prefix pat (c # cs) \<or> str_in pat cs)"

text \<open>\<open>str(n)\<close> for an integer, as an f-string formats it: decimal digits, a minus sign first.\<close>

fun digits :: "nat \<Rightarrow> str" where
  "digits n = (if n < 10 then [48 + n] else digits (n div 10) @ [48 + n mod 10])"

declare digits.simps [simp del]

definition str_of_int :: "int \<Rightarrow> str" where
  "str_of_int i = (if i < 0 then 45 # digits (nat (- i)) else digits (nat i))"

text \<open>
  \<open>s.strip()\<close>: leading and trailing whitespace removed, where whitespace is what
  \<open>str.isspace\<close> accepts.
\<close>

definition isspace :: "nat \<Rightarrow> bool" where
  "isspace c = (c \<in> set ([9, 10, 11, 12, 13, 28, 29, 30, 31, 32, 133, 160, 5760]
       @ [8192 ..< 8203] @ [8232, 8233, 8239, 8287, 12288]))"

definition strip :: "str \<Rightarrow> str" where
  "strip s = rev (dropWhile isspace (rev (dropWhile isspace s)))"

text \<open>
  The exceptions the two scripts raise or let through. \<open>ValueError\<close> carries its message;
  \<open>IndexError\<close> is Python's for \<open>xs[0]\<close> on an empty list; \<open>OSError\<close> is what
  \<open>subprocess.run\<close> raises when the program cannot be started; \<open>GitCommandError\<close> is
  GitPython's for a git command that exits non-zero and \<open>GitPythonError\<close> stands for its
  other exceptions (a path that is not a repository); \<open>TransportError\<close> stands for any
  exception of the GraphQL client.
\<close>

datatype error =
    ValueError str
  | IndexError
  | OSError str
  | GitCommandError str
  | GitPythonError str
  | TransportError str

section \<open>The pull request as the GraphQL query returns it\<close>

record page_info =
  hasNextPage :: bool
  endCursor :: "str option"

record 'a connection =
  pageInfo :: page_info
  nodes :: "'a list"

record file_node =
  file_path :: str
  file_additions :: int
  file_deletions :: int

record comment_node =
  comment_id :: str
  comment_author :: str
  comment_body :: str
  createdAt :: str

record review_node =
  review_id :: str
  review_author :: str
  review_state :: str
  review_body :: "str option"
  submittedAt :: str

record thread_comment =
  tc_id :: str
  databaseId :: int
  tc_author :: str
  tc_body :: str
  diffHunk :: "str option"
  tc_path :: str
  tc_line :: "int option"
  tc_createdAt :: str

record review_thread =
  thread_id :: str
  isResolved :: bool
  isOutdated :: bool
  resolvedBy :: "str option"
  thread_comments :: "thread_comment connection"

record pull_request =
  title :: str
  number :: int
  url :: str
  pr_author :: str
  baseRefName :: str
  headRefName :: str
  pr_state :: str
  additions :: int
  deletions :: int
  changedFiles :: int
  pr_body :: "str option"
  files :: "file_node connection"
  comments :: "comment_node connection"
  reviews :: "review_node connection"
  reviewThreads :: "review_thread connection"

section \<open>extract_unresolved_threads\<close>

text \<open>The dictionary appended for an unresolved thread.\<close>

record unresolved_thread =
  threadId :: str
  u_isResolved :: bool
  u_isOutdated :: bool
  u_author :: str
  u_line :: "int option"
  u_path :: str
  preview :: str
  commentCount :: nat
  allComments :: "thread_comment list"

text \<open>\<open>body.split("\n")[0][:120]\<close>: the text before the first line feed, at most 120 code points of it.\<close>

definition preview_of :: "str \<Rightarrow> str" where
  "preview_of body = take 120 (takeWhile (\<lambda>c. c \<noteq> 10) body)"

definition unresolved_entry :: "review_thread \<Rightarrow> thread_comment \<Rightarrow> unresolved_thread" where
  "unresolved_entry thread first_comment =
     \<lparr> threadId = thread_id thread,
       u_isResolved = isResolved thread,
       u_isOutdated = isOutdated thread,
       u_author = tc_author first_comment,
       u_line = tc_line first_comment,
       u_path = tc_path first_comment,
       preview = preview_of (tc_body first_comment),
       commentCount = length (nodes (thread_comments thread)),
       allComments = nodes (thread_comments thread) \<rparr>"

text \<open>
  The \<open>for thread in threads\<close> loop, with the list \<open>unresolved\<close> as accumulator.
  \<open>thread["comments"]["nodes"][0]\<close> raises \<open>IndexError\<close> on a thread without comments.
\<close>

fun extract_loop :: "review_thread list \<Rightarrow> unresolved_thread list \<Rightarrow> error + unresolved_thread list" where
  "extract_loop [] unresolved = Inr unresolved"
| "extract_loop (thread # threads) unresolved =
     (if \<not> isResolved thread then
        (case nodes (thread_comments thread) of
           [] \<Rightarrow> Inl IndexError
         | first_comment # _ \<Rightarrow>
             extract_loop threads (unresolved @ [unresolved_entry thread first_comment]))
      else extract_loop threads unresolved)"

definition extract_unresolved_threads :: "pull_request \<Rightarrow> error + unresolved_thread list" where
  "extract_unresolved_threads pr_data = extract_loop (nodes (reviewThreads pr_data)) []"

section \<open>Fetching: get_github_token, paginate_comments, get_pr_data\<close>

text \<open>
  What \<open>subprocess.run(..., capture_output=True, text=True, check=True)\<close> can do: return
  with the standard output, raise \<open>CalledProcessError\<close> on a non-zero exit status (carrying
  the standard error), or raise \<open>OSError\<close> when the program cannot be started.
\<close>

datatype 'a run_result =
    Completed 'a
  | CalledProcessError str
  | NotStarted str

record os_env =
  environ :: "str \<rightharpoonup> str"
  gh_auth_token :: "str run_result"

definition no_token_message :: str where
  "no_token_message =
     ascii ''No GitHub token found. Please set GITHUB_TOKEN or GH_TOKEN environment variable, ''
     @ ascii ''or authenticate with '' @ [39] @ ascii ''gh auth login'' @ [39]"

definition get_github_token :: "os_env \<Rightarrow> error + str" where
  "get_github_token env =
     (let token = (if truthy (environ env (ascii ''GITHUB_TOKEN''))
                   then environ env (ascii ''GITHUB_TOKEN'')
                   else environ env (ascii ''GH_TOKEN''));
          gh_cli = (case gh_auth_token env of
                      Completed stdout \<Rightarrow> Inr (strip stdout)
                    | CalledProcessError _ \<Rightarrow> Inl (ValueError no_token_message)
                    | NotStarted msg \<Rightarrow> Inl (OSError msg))
      in case token of
           None \<Rightarrow> gh_cli
         | Some t \<Rightarrow> if t \<noteq> [] then Inr t else gh_cli)"

text \<open>
  An action of the fetcher gives the lines it wrote to standard error and its value.
\<close>

type_synonym 'a io = "str list \<times> 'a"

definition truncation_warning :: str where
  "truncation_warning = ascii ''Warning: Thread has >100 comments, some may be truncated''"

text \<open>
  \<open>paginate_comments\<close> issues no query: it copies the nodes it was given and prints a
  warning when the connection reports a further page. The client, owner, repository, number
  and thread id are parameters it does not read.
\<close>

definition paginate_comments :: "thread_comment connection \<Rightarrow> thread_comment list io" where
  "paginate_comments initial_comments =
     (let all_comments = nodes initial_comments;
          page_info = pageInfo initial_comments
      in (if hasNextPage page_info then [truncation_warning] else [], all_comments))"

text \<open>The variables of \<open>GRAPHQL_QUERY\<close>; a cursor that is \<open>None\<close> asks for the first page.\<close>

record variables =
  v_owner :: str
  v_repo :: str
  v_number :: int
  filesCursor :: "str option"
  threadsCursor :: "str option"
  commentsCursor :: "str option"
  reviewsCursor :: "str option"

text \<open>
  \<open>client.execute(GRAPHQL_QUERY, variable_values=variables)\<close> followed by
  \<open>result["repository"]["pullRequest"]\<close>: the hosting API is a parameter of the model, a
  function of the variables that answers with the pull request or raises.
\<close>

type_synonym api = "variables \<Rightarrow> error + pull_request"

text \<open>
  The four \<open>while page_info["hasNextPage"]\<close> loops of \<open>get_pr_data\<close> are one loop up to the
  cursor they advance (and the cursors they clear), \<open>set_cursor\<close>, and the collection they
  read from the answer, \<open>collection\<close>. The loop need not end: \<open>None\<close> is that it does not.
  It gives the variables as the loop leaves them and the accumulated nodes.
\<close>

partial_function (option) paginate ::
  "api \<Rightarrow> (str option \<Rightarrow> variables \<Rightarrow> variables) \<Rightarrow> (pull_request \<Rightarrow> 'a connection)
     \<Rightarrow> variables \<Rightarrow> 'a list \<Rightarrow> page_info \<Rightarrow> (error + variables \<times> 'a list) option" where
  "paginate execute set_cursor collection vars all_nodes page_info =
     (if hasNextPage page_info then
        (let vars' = set_cursor (endCursor page_info) vars
         in case execute vars' of
              Inl e \<Rightarrow> Some (Inl e)
            | Inr result \<Rightarrow>
                paginate execute set_cursor collection vars'
                  (all_nodes @ nodes (collection result)) (pageInfo (collection result)))
      else Some (Inr (vars, all_nodes)))"

definition set_files_cursor :: "str option \<Rightarrow> variables \<Rightarrow> variables" where
  "set_files_cursor c vars = vars\<lparr>filesCursor := c\<rparr>"

definition set_comments_cursor :: "str option \<Rightarrow> variables \<Rightarrow> variables" where
  "set_comments_cursor c vars = vars\<lparr>commentsCursor := c, filesCursor := None\<rparr>"

definition set_reviews_cursor :: "str option \<Rightarrow> variables \<Rightarrow> variables" where
  "set_reviews_cursor c vars = vars\<lparr>reviewsCursor := c, filesCursor := None, commentsCursor := None\<rparr>"

definition set_threads_cursor :: "str option \<Rightarrow> variables \<Rightarrow> variables" where
  "set_threads_cursor c vars =
     vars\<lparr>threadsCursor := c, filesCursor := None, commentsCursor := None, reviewsCursor := None\<rparr>"

definition initial_variables :: "str \<Rightarrow> str \<Rightarrow> int \<Rightarrow> variables" where
  "initial_variables owner repo pr_number =
     \<lparr> v_owner = owner, v_repo = repo, v_number = pr_number,
       filesCursor = None, threadsCursor = None, commentsCursor = None, reviewsCursor = None \<rparr>"

text \<open>Sequencing of steps that may raise and may not return.\<close>

definition and_then :: "(error + 'a) option \<Rightarrow> ('a \<Rightarrow> (error + 'b) option) \<Rightarrow> (error + 'b) option" where
  "and_then m f = (case m of None \<Rightarrow> None | Some (Inl e) \<Rightarrow> Some (Inl e) | Some (Inr x) \<Rightarrow> f x)"

text \<open>
  \<open>get_pr_data\<close>. The client is built from the token, so the API is a function of the
  token too. The function has no \<open>print\<close> and calls nothing that has one
  (\<open>paginate_comments\<close> is not called): it writes nothing to standard error.
\<close>

definition fetch_pr_data :: "os_env \<Rightarrow> (str \<Rightarrow> api) \<Rightarrow> str \<Rightarrow> str \<Rightarrow> int \<Rightarrow> (error + pull_request) option" where
  "fetch_pr_data env client owner repo pr_number =
     and_then (Some (get_github_token env)) (\<lambda>token.
     let execute = client token;
         vars = initial_variables owner repo pr_number
     in and_then (Some (execute vars)) (\<lambda>pr_data.
        and_then (paginate execute set_files_cursor files vars
                    (nodes (files pr_data)) (pageInfo (files pr_data))) (\<lambda>(vars, all_files).
        let pr_data = pr_data\<lparr>files := (files pr_data)\<lparr>nodes := all_files\<rparr>\<rparr>
        in and_then (paginate execute set_comments_cursor comments vars
                    (nodes (comments pr_data)) (pageInfo (comments pr_data))) (\<lambda>(vars, all_comments).
        let pr_data = pr_data\<lparr>comments := (comments pr_data)\<lparr>nodes := all_comments\<rparr>\<rparr>
        in and_then (paginate execute set_reviews_cursor reviews vars
                    (nodes (reviews pr_data)) (pageInfo (reviews pr_data))) (\<lambda>(vars, all_reviews).
        let pr_data = pr_data\<lparr>reviews := (reviews pr_data)\<lparr>nodes := all_reviews\<rparr>\<rparr>
        in and_then (paginate execute set_threads_cursor reviewThreads vars
                    (nodes (reviewThreads pr_data)) (pageInfo (reviewThreads pr_data))) (\<lambda>(vars, all_threads).
        let pr_data = pr_data\<lparr>reviewThreads := (reviewThreads pr_data)\<lparr>nodes := all_threads\<rparr>\<rparr>
        in Some (Inr pr_data)))))))"

definition get_pr_data :: "os_env \<Rightarrow> (str \<Rightarrow> api) \<Rightarrow> str \<Rightarrow> str \<Rightarrow> int \<Rightarrow> (error + pull_request) io option" where
  "get_pr_data env client owner repo pr_number =
     map_option (Pair []) (fetch_pr_data env client owner repo pr_number)"

text \<open>
  The pages the API reports for one collection, starting from a page already received:
  the page itself when it reports no further page, and otherwise the page followed by the
  pages from the one that \<open>next_page\<close> gives for its end cursor.
\<close>

inductive page_chain :: "(str option \<Rightarrow> error + 'a connection) \<Rightarrow> 'a connection \<Rightarrow> 'a connection list \<Rightarrow> bool"
  for next_page where
  last_page: "\<not> hasNextPage (pageInfo p) \<Longrightarrow> page_chain next_page p [p]"
| next_page: "hasNextPage (pageInfo p) \<Longrightarrow> next_page (endCursor (pageInfo p)) = Inr p'
     \<Longrightarrow> page_chain next_page p' ps \<Longrightarrow> page_chain next_page p (p # ps)"

text \<open>
  The page of each collection after a cursor: the collection's part of the answer to the
  query in which that collection's cursor is set and the three others are null.
\<close>

definition files_after :: "api \<Rightarrow> str \<Rightarrow> str \<Rightarrow> int \<Rightarrow> str option \<Rightarrow> error + file_node connection" where
  "files_after execute owner repo pr_number c =
     map_sum id files (execute ((initial_variables owner repo pr_number)\<lparr>filesCursor := c\<rparr>))"

definition comments_after :: "api \<Rightarrow> str \<Rightarrow> str \<Rightarrow> int \<Rightarrow> str option \<Rightarrow> error + comment_node connection" where
  "comments_after execute owner repo pr_number c =
     map_sum id comments (execute ((initial_variables owner repo pr_number)\<lparr>commentsCursor := c\<rparr>))"

definition reviews_after :: "api \<Rightarrow> str \<Rightarrow> str \<Rightarrow> int \<Rightarrow> str option \<Rightarrow> error + review_node connection" where
  "reviews_after execute owner repo pr_number c =
     map_sum id reviews (execute ((initial_variables owner repo pr_number)\<lparr>reviewsCursor := c\<rparr>))"

definition threads_after :: "api \<Rightarrow> str \<Rightarrow> str \<Rightarrow> int \<Rightarrow> str option \<Rightarrow> error + review_thread connection" where
  "threads_after execute owner repo pr_number c =
     map_sum id reviewThreads (execute ((initial_variables owner repo pr_number)\<lparr>threadsCursor := c\<rparr>))"

section \<open>generate_markdown_summary\<close>

text \<open>
  The document that \<open>generate_markdown_summary\<close> builds with SnakeMD, as the list of the
  blocks it adds in order; the function returns SnakeMD's rendering \<open>str(doc)\<close> of that
  list, which is the library's and is not modelled. An element of a paragraph is a plain
  string, \<open>Inline(s, bold=True)\<close> or \<open>Inline(s, code=True)\<close>.
\<close>

datatype inline = Plain str | Bold str | Code str

datatype block =
    Heading str nat
  | Paragraph "inline list"
  | UnorderedList "inline list list"
  | Raw str
  | HorizontalRule
  | CodeBlock str str

text \<open>The dictionaries of \<open>all_timeline_items\<close>: the key \<open>type\<close> is the constructor.\<close>

datatype timeline_item =
    CommentItem (item_timestamp: str) (item_author: str) (item_body: str)
  | ReviewItem (item_timestamp: str) (item_author: str) (item_body: str) (item_state: str)

definition comment_item :: "comment_node \<Rightarrow> timeline_item" where
  "comment_item comment = CommentItem (createdAt comment) (comment_author comment) (comment_body comment)"

text \<open>The loop over the reviews: \<open>if review.get("body")\<close> keeps a review whose body is truthy.\<close>

fun review_items :: "review_node list \<Rightarrow> timeline_item list" where
  "review_items [] = []"
| "review_items (review # rest) =
     (case review_body review of
        None \<Rightarrow> review_items rest
      | Some body \<Rightarrow>
          if body \<noteq> []
          then ReviewItem (submittedAt review) (review_author review) body (review_state review)
                 # review_items rest
          else review_items rest)"

text \<open>
  \<open>all_timeline_items.sort(key=lambda x: x["timestamp"])\<close>: a stable sort on the timestamp
  strings, which Python compares lexicographically by code point; that is the order of
  lists of numbers here, and \<open>sort_key\<close> is a stable insertion sort.
\<close>

definition all_timeline_items :: "pull_request \<Rightarrow> timeline_item list" where
  "all_timeline_items pr_data =
     sort_key item_timestamp
       (map comment_item (nodes (comments pr_data)) @ review_items (nodes (reviews pr_data)))"

definition state_labels :: "(str \<times> str) list" where
  "state_labels =
     [ (ascii ''APPROVED'', 9989 # ascii '' APPROVED''),
       (ascii ''CHANGES_REQUESTED'', 128308 # ascii '' CHANGES REQUESTED''),
       (ascii ''COMMENTED'', 128172 # ascii '' COMMENTED''),
       (ascii ''DISMISSED'', 10060 # ascii '' DISMISSED''),
       (ascii ''PENDING'', 9203 # ascii '' PENDING'') ]"

text \<open>\<open>{...}.get(item["state"], item["state"])\<close>.\<close>

definition state_label :: "str \<Rightarrow> str" where
  "state_label st = (case map_of state_labels st of Some label \<Rightarrow> label | None \<Rightarrow> st)"

fun item_blocks :: "timeline_item \<Rightarrow> block list" where
  "item_blocks (CommentItem ts author body) =
     [ Paragraph [Bold (64 # author), Plain (ascii '' ('' @ ts @ ascii ''):'')],
       Raw body, HorizontalRule ]"
| "item_blocks (ReviewItem ts author body st) =
     [ Paragraph [Bold (64 # author),
                  Plain (ascii '' ('' @ ts @ ascii '') - '' @ state_label st @ ascii '':'')],
       Raw body, HorizontalRule ]"

definition discussion_heading :: block where
  "discussion_heading = Heading (ascii ''Discussion & Reviews'') 2"

definition discussion_section :: "timeline_item list \<Rightarrow> block list" where
  "discussion_section items =
     (if items \<noteq> [] then discussion_heading # concat (map item_blocks items) else [])"

text \<open>The blocks before the timeline: title, metadata, statistics, description, files.\<close>

definition file_entry :: "file_node \<Rightarrow> inline list" where
  "file_entry file =
     [ Code (file_path file),
       Plain (ascii '' (+'' @ str_of_int (file_additions file) @ ascii '' -''
              @ str_of_int (file_deletions file) @ ascii '')'') ]"

definition summary_head :: "pull_request \<Rightarrow> unresolved_thread list \<Rightarrow> block list" where
  "summary_head pr_data unresolved_threads =
     [ Heading (ascii ''PR #'' @ str_of_int (number pr_data) @ ascii '': '' @ title pr_data) 1,
       Paragraph [Bold (ascii ''URL''), Plain (ascii '': '' @ url pr_data)],
       Paragraph [Bold (ascii ''Author''), Plain (ascii '': @'' @ pr_author pr_data)],
       Paragraph [Bold (ascii ''Status''), Plain (ascii '': '' @ pr_state pr_data)],
       Paragraph [Bold (ascii ''Branch''), Plain (ascii '': ''), Code (headRefName pr_data),
                  Plain [32, 8594, 32], Code (baseRefName pr_data)],
       Heading (ascii ''Summary'') 2,
       UnorderedList
         [ [Bold (ascii ''Files changed''), Plain (ascii '': '' @ str_of_int (changedFiles pr_data))],
           [Bold (ascii ''Additions''), Plain (ascii '': +'' @ str_of_int (additions pr_data))],
           [Bold (ascii ''Deletions''), Plain (ascii '': -'' @ str_of_int (deletions pr_data))],
           [Bold (ascii ''General comments''),
            Plain (ascii '': '' @ str_of_int (int (length (nodes (comments pr_data)))))],
           [Bold (ascii ''Unresolved review comments''),
            Plain (ascii '': '' @ str_of_int (int (length unresolved_threads)))] ] ]
     @ (case pr_body pr_data of
          None \<Rightarrow> []
        | Some body \<Rightarrow> if body \<noteq> [] then [Heading (ascii ''Description'') 2, Raw body] else [])
     @ [ Heading (ascii ''Files Changed'') 2 ]
     @ (if nodes (files pr_data) \<noteq> []
        then [UnorderedList (map file_entry (nodes (files pr_data)))]
        else [Paragraph [Plain (ascii ''*No file changes found*'')]])"

text \<open>
  The comments of one unresolved thread, \<open>enumerate(thread["allComments"])\<close>: the diff hunk
  is shown for index 0 only, when it is truthy.
\<close>

fun thread_comment_blocks :: "nat \<Rightarrow> thread_comment list \<Rightarrow> block list" where
  "thread_comment_blocks idx [] = []"
| "thread_comment_blocks idx (comment # rest) =
     [ Paragraph [Bold (64 # tc_author comment),
                  Plain (ascii '' ('' @ tc_createdAt comment @ ascii ''):'')] ]
     @ (case diffHunk comment of
          None \<Rightarrow> []
        | Some hunk \<Rightarrow>
            if idx = 0 \<and> hunk \<noteq> []
            then [Paragraph [Bold (ascii ''Code context:'')], CodeBlock hunk (ascii ''diff'')]
            else [])
     @ [ Raw (tc_body comment), HorizontalRule ]
     @ thread_comment_blocks (Suc idx) rest"

definition location_blocks :: "unresolved_thread \<Rightarrow> block list" where
  "location_blocks thread =
     (if u_path thread \<noteq> []
      then [Paragraph ([Bold (ascii ''Location''), Plain (ascii '': ''), Code (u_path thread)]
              @ (case u_line thread of
                   None \<Rightarrow> []
                 | Some line \<Rightarrow>
                     if line \<noteq> 0 then [Plain (ascii '' (line '' @ str_of_int line @ ascii '')'')]
                     else []))]
      else [])"

text \<open>\<open>enumerate(unresolved_threads, 1)\<close>.\<close>

fun unresolved_thread_blocks :: "nat \<Rightarrow> unresolved_thread list \<Rightarrow> block list" where
  "unresolved_thread_blocks i [] = []"
| "unresolved_thread_blocks i (thread # rest) =
     [ Heading (str_of_int (int i) @ ascii ''. Comment by @'' @ u_author thread) 3 ]
     @ location_blocks thread
     @ [ Paragraph [Bold (ascii ''Status''),
                    Plain (ascii '': '' @ (if u_isOutdated thread then ascii ''Outdated''
                                           else ascii ''Current''))] ]
     @ thread_comment_blocks 0 (allComments thread)
     @ unresolved_thread_blocks (Suc i) rest"

definition unresolved_section :: "unresolved_thread list \<Rightarrow> block list" where
  "unresolved_section unresolved_threads =
     Heading (ascii ''Unresolved Review Comments'') 2
     # (if unresolved_threads \<noteq> [] then unresolved_thread_blocks 1 unresolved_threads
        else [Paragraph [Plain (ascii ''*No unresolved comments*'')]])"

definition generate_markdown_summary :: "pull_request \<Rightarrow> unresolved_thread list \<Rightarrow> block list" where
  "generate_markdown_summary pr_data unresolved_threads =
     summary_head pr_data unresolved_threads
     @ discussion_section (all_timeline_items pr_data)
     @ unresolved_section unresolved_threads"

section \<open>prepare-worktree: find_remote_for_repo and prepare_worktree\<close>

record remote =
  remote_name :: str
  remote_url :: str

text \<open>
  \<open>find_remote_for_repo\<close> over \<open>repo.remotes\<close>: the first remote whose URL satisfies
  \<open>f"{owner}/{repo_name}" in url or f":{owner}/{repo_name}" in url\<close>, and \<open>ValueError\<close>
  when the loop ends without one.
\<close>

fun find_remote_for_repo :: "remote list \<Rightarrow> str \<Rightarrow> str \<Rightarrow> error + str" where
  "find_remote_for_repo [] owner repo_name =
     Inl (ValueError (ascii ''No remote found for '' @ owner @ ascii ''/'' @ repo_name))"
| "find_remote_for_repo (remote # remotes) owner repo_name =
     (let url = remote_url remote
      in if str_in (owner @ ascii ''/'' @ repo_name) url
            \<or> str_in (ascii '':'' @ owner @ ascii ''/'' @ repo_name) url
         then Inr (remote_name remote)
         else find_remote_for_repo remotes owner repo_name)"

text \<open>
  What \<open>prepare_worktree\<close> asks of the file system, the \<open>gh\<close> command and git is a parameter
  of the model: which paths exist when the function starts, what each query answers, and
  whether each command succeeds or raises (with the text of the exception). The standard
  output of \<open>gh\<close> is taken as \<open>json.loads\<close> decodes it.
\<close>

datatype outcome = Succeeds | Fails str

text \<open>
  The state of the existing working tree as \<open>Repo(worktree_path)\<close> finds it, or the exception
  that opening or examining it raises. GitPython's \<open>is_dirty\<close> looks at the index and at
  the tracked files always, and at untracked files when asked to.
\<close>

record tree_status =
  index_changes :: bool
  working_tree_changes :: bool
  untracked_present :: bool

datatype dirty_check = Status tree_status | CheckRaises str

definition is_dirty :: "tree_status \<Rightarrow> bool \<Rightarrow> bool" where
  "is_dirty st untracked_files =
     (index_changes st \<or> working_tree_changes st \<or> (untracked_files \<and> untracked_present st))"

record pr_info =
  info_headRefName :: str
  info_headRefOid :: str

record git_env =
  resolve :: "str \<Rightarrow> str"
  path_exists :: "str \<Rightarrow> bool"
  repo_opens :: "str \<Rightarrow> bool"
  gh_pr_view :: "int \<Rightarrow> pr_info run_result"
  gh_repo_view :: "(str \<times> str) run_result"
  remotes :: "remote list"
  date_stdout :: str
  worktree_status :: dirty_check
  git_worktree_remove :: outcome
  shutil_rmtree :: outcome
  git_worktree_prune :: outcome
  git_branch_delete :: outcome
  git_fetch :: outcome
  git_worktree_add :: outcome

text \<open>The file system while the function runs: the paths that exist.\<close>

type_synonym file_system = "str \<Rightarrow> bool"

text \<open>What the function does to the world, in the order it does it; a command that raises is in the list too.\<close>

datatype action =
    Mkdir str
  | WriteText str str
  | PrintErr str
  | GitWorktreeRemoveForce str
  | Rmtree str
  | GitWorktreePrune
  | GitBranchDelete str
  | GitFetch str str
  | GitWorktreeAdd str str

type_synonym 'a effect = "action list \<times> (error + 'a)"

definition followed_by :: "'a effect \<Rightarrow> ('a \<Rightarrow> 'b effect) \<Rightarrow> 'b effect" where
  "followed_by m f =
     (case m of
        (acts, Inl e) \<Rightarrow> (acts, Inl e)
      | (acts, Inr x) \<Rightarrow> (case f x of (rest, r) \<Rightarrow> (acts @ rest, r)))"

definition get_pr_info :: "git_env \<Rightarrow> int \<Rightarrow> error + pr_info" where
  "get_pr_info env pr_number =
     (case gh_pr_view env pr_number of
        Completed info \<Rightarrow> Inr info
      | CalledProcessError stderr \<Rightarrow> Inl (ValueError (ascii ''Failed to get PR information: '' @ stderr))
      | NotStarted msg \<Rightarrow> Inl (OSError msg))"

definition get_repo_info :: "git_env \<Rightarrow> error + str \<times> str" where
  "get_repo_info env =
     (case gh_repo_view env of
        Completed info \<Rightarrow> Inr info
      | CalledProcessError stderr \<Rightarrow>
          Inl (ValueError (ascii ''Failed to get repository information: '' @ stderr))
      | NotStarted msg \<Rightarrow> Inl (OSError msg))"

text \<open>\<open>parent / name\<close> for a relative name without empty or dot components, as a branch name is.\<close>

definition path_join :: "str \<Rightarrow> str \<Rightarrow> str" where
  "path_join parent name = (if parent = ascii ''/'' then parent @ name else parent @ ascii ''/'' @ name)"

definition unlines :: "str list \<Rightarrow> str" where
  "unlines ls = concat (map (\<lambda>l. l @ [10]) ls)"

definition readme_template :: "int \<Rightarrow> str \<Rightarrow> str \<Rightarrow> str \<Rightarrow> str" where
  "readme_template pr_number branch_name worktree_path date =
     unlines
     [ ascii ''# PR #'' @ str_of_int pr_number @ ascii '' Review Notes'', [],
       ascii ''## PR Information'', ascii ''- **Branch**: `'' @ branch_name @ ascii ''`'',
       ascii ''- **Worktree**: `'' @ worktree_path @ ascii ''`'',
       ascii ''- **Review Started**: '' @ date, [], ascii ''## Review Progress'', [],
       ascii ''### 1. PR Summary Analysis'', ascii ''- [ ] Reviewed PR description and metadata'',
       ascii ''- [ ] Reviewed file changes'', ascii ''- [ ] Reviewed discussion timeline'',
       ascii ''- [ ] Identified unresolved comments'', [], ascii ''**Notes:**'', [], [],
       ascii ''### 2. Context Gathering'',
       ascii ''- [ ] Identified related files and dependencies'',
       ascii ''- [ ] Reviewed test coverage'', ascii ''- [ ] Checked documentation updates'',
       ascii ''- [ ] Reviewed architecture alignment'', [], ascii ''**Notes:**'', [], [],
       ascii ''### 3. Code Review'', ascii ''- [ ] Reviewed all changed files'',
       ascii ''- [ ] Checked for correctness and logic issues'',
       ascii ''- [ ] Verified error handling'', ascii ''- [ ] Assessed performance implications'',
       ascii ''- [ ] Checked security concerns'', [], ascii ''**Notes:**'', [], [],
       ascii ''### 4. Issues Found'', [], ascii ''#### Unresolved Comments (from PR)'', [], [],
       ascii ''#### New Issues Found'', [], [], ascii ''### 5. Final Recommendation'', [],
       ascii ''**Status**: [ ] Approve [ ] Request Changes [ ] Comment'', [],
       ascii ''**Summary:**'', [], [], ascii ''**Action Items:**'', [] ]"

text \<open>\<open>str(e)\<close> of an exception.\<close>

fun str_of_error :: "error \<Rightarrow> str" where
  "str_of_error (ValueError msg) = msg"
| "str_of_error IndexError = ascii ''list index out of range''"
| "str_of_error (OSError msg) = msg"
| "str_of_error (GitCommandError msg) = msg"
| "str_of_error (GitPythonError msg) = msg"
| "str_of_error (TransportError msg) = msg"

definition dirty_message :: "str \<Rightarrow> str" where
  "dirty_message worktree_path =
     ascii ''Worktree at '' @ worktree_path @ ascii '' has uncommitted changes. ''
     @ ascii ''Please commit or discard changes before recreating the worktree.''"

text \<open>
  The \<open>try\<close> around the dirty check: what is raised inside it, if anything. The handler
  re-raises an exception whose text contains \<open>uncommitted changes\<close> and prints a warning
  for any other.
\<close>

definition check_dirty :: "git_env \<Rightarrow> str \<Rightarrow> unit effect" where
  "check_dirty env worktree_path =
     (let raised = (case worktree_status env of
                      Status worktree_repo \<Rightarrow>
                        if is_dirty worktree_repo True
                        then Some (ValueError (dirty_message worktree_path)) else None
                    | CheckRaises msg \<Rightarrow> Some (GitPythonError msg))
      in case raised of
           None \<Rightarrow> ([], Inr ())
         | Some e \<Rightarrow>
             if str_in (ascii ''uncommitted changes'') (str_of_error e)
             then ([], Inl e)
             else ([PrintErr (ascii ''Warning: Could not check if worktree is dirty: ''
                              @ str_of_error e)], Inr ()))"

text \<open>
  Removing the working tree: git's forced removal, and when that raises
  \<open>GitCommandError\<close>, \<open>shutil.rmtree\<close> followed by \<open>git worktree prune\<close>, whose
  exceptions are not handled.
\<close>

definition remove_worktree :: "git_env \<Rightarrow> str \<Rightarrow> unit effect" where
  "remove_worktree env worktree_path =
     (case git_worktree_remove env of
        Succeeds \<Rightarrow> ([GitWorktreeRemoveForce worktree_path], Inr ())
      | Fails _ \<Rightarrow>
          (case shutil_rmtree env of
             Fails msg \<Rightarrow> ([GitWorktreeRemoveForce worktree_path, Rmtree worktree_path], Inl (OSError msg))
           | Succeeds \<Rightarrow>
               (case git_worktree_prune env of
                  Fails msg \<Rightarrow>
                    ([GitWorktreeRemoveForce worktree_path, Rmtree worktree_path, GitWorktreePrune],
                     Inl (GitCommandError msg))
                | Succeeds \<Rightarrow>
                    ([GitWorktreeRemoveForce worktree_path, Rmtree worktree_path, GitWorktreePrune],
                     Inr ()))))"

text \<open>The block under \<open>if worktree_path.exists()\<close>.\<close>

definition replace_existing :: "git_env \<Rightarrow> file_system \<Rightarrow> str \<Rightarrow> unit effect" where
  "replace_existing env fs worktree_path =
     (if fs worktree_path then
        followed_by ([PrintErr (ascii ''Worktree already exists at: '' @ worktree_path)], Inr ()) (\<lambda>_.
        followed_by (check_dirty env worktree_path) (\<lambda>_.
        followed_by ([PrintErr (ascii ''Removing and recreating...'')], Inr ()) (\<lambda>_.
        remove_worktree env worktree_path)))
      else ([], Inr ()))"

text \<open>
  Deleting the local branch (a \<open>GitCommandError\<close> is ignored) and fetching the pull
  request's head into it; any exception of the fetch becomes a \<open>ValueError\<close>.
\<close>

definition fetch_branch :: "git_env \<Rightarrow> str \<Rightarrow> int \<Rightarrow> str \<Rightarrow> str \<Rightarrow> unit effect" where
  "fetch_branch env remote_nm pr_number branch_name head_sha =
     followed_by
       (case git_branch_delete env of
          Succeeds \<Rightarrow> ([GitBranchDelete branch_name,
                        PrintErr (ascii ''Deleted existing local branch: '' @ branch_name)], Inr ())
        | Fails _ \<Rightarrow> ([GitBranchDelete branch_name], Inr ())) (\<lambda>_.
     let refspec = ascii ''pull/'' @ str_of_int pr_number @ ascii ''/head:'' @ branch_name
     in case git_fetch env of
          Succeeds \<Rightarrow>
            ([GitFetch remote_nm refspec,
              PrintErr (ascii ''Created local branch '' @ branch_name @ ascii '' at '' @ take 8 head_sha)],
             Inr ())
        | Fails msg \<Rightarrow>
            ([GitFetch remote_nm refspec], Inl (ValueError (ascii ''Failed to create branch: '' @ msg))))"

definition create_worktree :: "git_env \<Rightarrow> str \<Rightarrow> str \<Rightarrow> str effect" where
  "create_worktree env worktree_path branch_name =
     (case git_worktree_add env of
        Succeeds \<Rightarrow> ([GitWorktreeAdd worktree_path branch_name], Inr worktree_path)
      | Fails msg \<Rightarrow>
          ([GitWorktreeAdd worktree_path branch_name],
           Inl (ValueError (ascii ''Failed to create worktree: '' @ msg))))"

text \<open>
  \<open>Path.mkdir(exist_ok=True)\<close>, without \<open>parents=True\<close>, of \<open>parent / name\<close>: it raises
  \<open>FileNotFoundError\<close> when the directory that is to hold the new one is missing, which for
  a name with a \<open>/\<close> in it is not \<open>parent\<close> itself. A path that exists is taken to be a
  directory, and permissions are not modelled.
\<close>

definition dirname :: "str \<Rightarrow> str" where
  "dirname name = rev (tl (dropWhile (\<lambda>c. c \<noteq> 47) (rev name)))"

definition containing_dir :: "str \<Rightarrow> str \<Rightarrow> str" where
  "containing_dir parent name =
     (if 47 \<in> set name then path_join parent (dirname name) else parent)"

definition mkdir :: "file_system \<Rightarrow> str \<Rightarrow> str \<Rightarrow> file_system effect" where
  "mkdir fs parent name =
     (let path = path_join parent name
      in if fs (containing_dir parent name)
         then ([Mkdir path], Inr (fs(path := True)))
         else ([Mkdir path],
               Inl (OSError (ascii ''[Errno 2] No such file or directory: '' @ [39] @ path @ [39]))))"

text \<open>
  The directories and the README of the review notes, from the file system as the function
  finds it to the file system as this step leaves it.
\<close>

definition prepare_notes :: "git_env \<Rightarrow> str \<Rightarrow> int \<Rightarrow> str \<Rightarrow> str \<Rightarrow> file_system effect" where
  "prepare_notes env repo_path pr_number branch_name worktree_path =
     followed_by (mkdir (path_exists env) repo_path (ascii ''git-worktrees'')) (\<lambda>fs.
     followed_by (mkdir fs repo_path (ascii ''review-notes'')) (\<lambda>fs.
     let review_notes_dir = path_join repo_path (ascii ''review-notes'')
     in followed_by (mkdir fs review_notes_dir branch_name) (\<lambda>fs.
        let review_notes_path = path_join review_notes_dir branch_name;
            readme_path = path_join review_notes_path (ascii ''README.md'')
        in if \<not> fs readme_path
           then ([WriteText readme_path
                    (readme_template pr_number branch_name worktree_path (strip (date_stdout env))),
                  PrintErr (ascii ''Created review notes at: '' @ review_notes_path @ ascii ''/README.md'')],
                 Inr (fs(readme_path := True)))
           else ([], Inr fs))))"

definition prepare_worktree :: "git_env \<Rightarrow> str \<Rightarrow> int \<Rightarrow> str effect" where
  "prepare_worktree env repo_path_arg pr_number =
     (let repo_path = resolve env repo_path_arg
      in if \<not> path_exists env repo_path
         then ([], Inl (ValueError (ascii ''Repository path does not exist: '' @ repo_path)))
         else if \<not> repo_opens env repo_path
         then ([], Inl (ValueError (ascii ''Not a valid git repository: '' @ repo_path)))
         else
           followed_by ([], get_pr_info env pr_number) (\<lambda>info.
           let branch_name = info_headRefName info;
               head_sha = info_headRefOid info
           in followed_by ([], get_repo_info env) (\<lambda>(repo_owner, repo_name).
              followed_by ([], find_remote_for_repo (remotes env) repo_owner repo_name) (\<lambda>remote_nm.
              let worktree_path = path_join (path_join repo_path (ascii ''git-worktrees'')) branch_name
              in followed_by (prepare_notes env repo_path pr_number branch_name worktree_path) (\<lambda>fs.
                 followed_by (replace_existing env fs worktree_path) (\<lambda>_.
                 followed_by (fetch_branch env remote_nm pr_number branch_name head_sha) (\<lambda>_.
                 create_worktree env worktree_path branch_name)))))))"

text \<open>
  The reading of a match that the specification words suggest, for comparison with the
  code: the text \<open>owner/name\<close> stands in the URL right after a \<open>/\<close> (a path segment) or
  right after a \<open>:\<close>.
\<close>

definition segment_match :: "str \<Rightarrow> str \<Rightarrow> str \<Rightarrow> bool" where
  "segment_match owner repo_name remote_u =
     (str_in (ascii ''/'' @ owner @ ascii ''/'' @ repo_name) remote_u
      \<or> str_in (ascii '':'' @ owner @ ascii ''/'' @ repo_name) remote_u)"


section \<open>Worked inputs\<close>

text \<open>
  A pull request whose files come in two pages, with one general comment, two reviews (one
  without a body) and two review threads: a resolved one and an unresolved one whose
  comments connection reports a further page.
\<close>

definition example_thread_comment :: thread_comment where
  "example_thread_comment =
     \<lparr> tc_id = ascii ''RC_1'', databaseId = 7, tc_author = ascii ''alice'',
       tc_body = ascii ''Please rename this.'' @ [10] @ ascii ''It shadows a builtin.'',
       diffHunk = Some (ascii ''@@ -1 +1 @@''), tc_path = ascii ''src/a.py'', tc_line = Some 3,
       tc_createdAt = ascii ''2024-05-01T10:00:00Z'' \<rparr>"

definition example_open_thread :: review_thread where
  "example_open_thread =
     \<lparr> thread_id = ascii ''T_2'', isResolved = False, isOutdated = False, resolvedBy = None,
       thread_comments =
         \<lparr> pageInfo = \<lparr> hasNextPage = True, endCursor = Some (ascii ''k100'') \<rparr>,
           nodes = [example_thread_comment] \<rparr> \<rparr>"

definition example_resolved_thread :: review_thread where
  "example_resolved_thread =
     \<lparr> thread_id = ascii ''T_1'', isResolved = True, isOutdated = True,
       resolvedBy = Some (ascii ''bob''),
       thread_comments =
         \<lparr> pageInfo = \<lparr> hasNextPage = False, endCursor = None \<rparr>, nodes = [] \<rparr> \<rparr>"

definition example_file_a :: file_node where
  "example_file_a = \<lparr> file_path = ascii ''src/a.py'', file_additions = 10, file_deletions = 2 \<rparr>"

definition example_file_b :: file_node where
  "example_file_b = \<lparr> file_path = ascii ''src/b.py'', file_additions = 1, file_deletions = 0 \<rparr>"

definition example_files_page2 :: "file_node connection" where
  "example_files_page2 =
     \<lparr> pageInfo = \<lparr> hasNextPage = False, endCursor = Some (ascii ''c2'') \<rparr>,
       nodes = [example_file_b] \<rparr>"

definition example_comment :: comment_node where
  "example_comment =
     \<lparr> comment_id = ascii ''IC_1'', comment_author = ascii ''carol'',
       comment_body = ascii ''Thanks!'', createdAt = ascii ''2024-05-02T09:00:00Z'' \<rparr>"

definition example_review_approved :: review_node where
  "example_review_approved =
     \<lparr> review_id = ascii ''PRR_1'', review_author = ascii ''bob'',
       review_state = ascii ''APPROVED'', review_body = Some (ascii ''lgtm''),
       submittedAt = ascii ''2024-05-01T12:00:00Z'' \<rparr>"

definition example_review_silent :: review_node where
  "example_review_silent =
     \<lparr> review_id = ascii ''PRR_2'', review_author = ascii ''dave'',
       review_state = ascii ''COMMENTED'', review_body = None,
       submittedAt = ascii ''2024-05-03T08:00:00Z'' \<rparr>"

definition example_pr :: pull_request where
  "example_pr =
     \<lparr> title = ascii ''Fix parser'', number = 744, url = ascii ''https://github.com/foo/bar/pull/744'',
       pr_author = ascii ''alice'', baseRefName = ascii ''main'', headRefName = ascii ''fix-parser'',
       pr_state = ascii ''OPEN'', additions = 11, deletions = 2, changedFiles = 2,
       pr_body = Some (ascii ''Fixes the parser.''),
       files = \<lparr> pageInfo = \<lparr> hasNextPage = True, endCursor = Some (ascii ''c1'') \<rparr>,
                 nodes = [example_file_a] \<rparr>,
       comments = \<lparr> pageInfo = \<lparr> hasNextPage = False, endCursor = None \<rparr>,
                    nodes = [example_comment] \<rparr>,
       reviews = \<lparr> pageInfo = \<lparr> hasNextPage = False, endCursor = None \<rparr>,
                   nodes = [example_review_silent, example_review_approved] \<rparr>,
       reviewThreads = \<lparr> pageInfo = \<lparr> hasNextPage = False, endCursor = None \<rparr>,
                         nodes = [example_resolved_thread, example_open_thread] \<rparr> \<rparr>"

text \<open>An API that serves that pull request: the second page of files after the cursor \<open>c1\<close>.\<close>

definition example_client :: "str \<Rightarrow> api" where
  "example_client token vars =
     (if filesCursor vars = Some (ascii ''c1'')
      then Inr (example_pr\<lparr>files := example_files_page2\<rparr>)
      else Inr example_pr)"

definition example_env :: os_env where
  "example_env =
     \<lparr> environ = [ascii ''GH_TOKEN'' \<mapsto> ascii ''ghp_example''],
       gh_auth_token = CalledProcessError (ascii ''not logged in'') \<rparr>"

text \<open>A machine without the \<open>gh\<close> program and without a token in the environment.\<close>

definition gh_not_found :: str where
  "gh_not_found = ascii ''[Errno 2] No such file or directory: '' @ [39] @ ascii ''gh'' @ [39]"

definition env_without_gh :: os_env where
  "env_without_gh = \<lparr> environ = Map.empty, gh_auth_token = NotStarted gh_not_found \<rparr>"

text \<open>
  Two remotes: a fork owned by \<open>myfoo\<close>, listed first, and the repository \<open>foo/bar\<close>
  itself.
\<close>

definition example_remotes :: "remote list" where
  "example_remotes =
     [ \<lparr> remote_name = ascii ''fork'', remote_url = ascii ''git@github.com:myfoo/bar.git'' \<rparr>,
       \<lparr> remote_name = ascii ''origin'', remote_url = ascii ''git@github.com:foo/bar.git'' \<rparr> ]"

text \<open>The same pull request with no general comment and only the review without a body.\<close>

definition example_quiet_pr :: pull_request where
  "example_quiet_pr =
     example_pr\<lparr> comments := (comments example_pr)\<lparr>nodes := []\<rparr>,
                  reviews := (reviews example_pr)\<lparr>nodes := [example_review_silent]\<rparr> \<rparr>"

text \<open>
  A repository at \<open>/repo\<close> whose remote \<open>origin\<close> is \<open>foo/bar\<close>, where the working tree
  of the pull request's branch exists already and every command succeeds; the name of the
  branch and the state of the existing working tree are left open. Nothing exists under
  \<open>/repo\<close> but that working tree.
\<close>

definition example_git_env :: "str \<Rightarrow> tree_status \<Rightarrow> git_env" where
  "example_git_env branch st =
     \<lparr> resolve = (\<lambda>p. p),
       path_exists = (\<lambda>p. p = ascii ''/repo'' \<or> p = ascii ''/repo/git-worktrees/'' @ branch),
       repo_opens = (\<lambda>p. True),
       gh_pr_view = (\<lambda>n. Completed \<lparr> info_headRefName = branch,
                                       info_headRefOid = ascii ''0123456789abcdef'' \<rparr>),
       gh_repo_view = Completed (ascii ''foo'', ascii ''bar''),
       remotes = [\<lparr> remote_name = ascii ''origin'', remote_url = ascii ''git@github.com:foo/bar.git'' \<rparr>],
       date_stdout = ascii ''2024-05-04 10:00:00'' @ [10],
       worktree_status = Status st,
       git_worktree_remove = Succeeds,
       shutil_rmtree = Succeeds,
       git_worktree_prune = Succeeds,
       git_branch_delete = Fails (ascii ''error: branch not found''),
       git_fetch = Succeeds,
       git_worktree_add = Succeeds \<rparr>"



text \<open>A pull request whose only review thread is unresolved and has no comment.\<close>

definition example_empty_thread_pr :: pull_request where
  "example_empty_thread_pr =
     example_pr\<lparr> reviewThreads := (reviewThreads example_pr)
       \<lparr> nodes := [ \<lparr> thread_id = ascii ''T_3'', isResolved = False, isOutdated = False,
                       resolvedBy = None,
                       thread_comments = \<lparr> pageInfo = \<lparr> hasNextPage = False, endCursor = None \<rparr>,
                                           nodes = [] \<rparr> \<rparr> ] \<rparr> \<rparr>"

section \<open>Properties of the fetcher\<close>

lemma page_chain_hd: "page_chain next_page p ps \<Longrightarrow> \<exists>qs. ps = p # qs"
  by (erule page_chain.cases) auto

lemma paginate_follows_chain:
  assumes "page_chain next_page p ps"
    and "\<And>c. next_page c = map_sum id collection (execute (set_cursor c vars0))"
    and "\<And>c c' v. set_cursor c (set_cursor c' v) = set_cursor c v"
    and "\<And>c. set_cursor c vars = set_cursor c vars0"
  shows "\<exists>vars'. paginate execute set_cursor collection vars all_nodes (pageInfo p)
            = Some (Inr (vars', all_nodes @ concat (map nodes (tl ps))))
          \<and> (vars' = vars \<or> (\<exists>c. vars' = set_cursor c vars0))"
  using assms
proof (induction arbitrary: vars all_nodes rule: page_chain.induct)
  case (last_page p)
  then show ?case by (subst paginate.simps) auto
next
  case (next_page p p' ps)
  let ?v = "set_cursor (endCursor (pageInfo p)) vars"
  have v: "?v = set_cursor (endCursor (pageInfo p)) vars0"
    using next_page.prems(3) by auto
  from next_page.hyps(2) next_page.prems(1) v
  obtain r where r: "execute ?v = Inr r" "collection r = p'"
    by (cases "execute ?v") auto
  have "\<exists>vars'. paginate execute set_cursor collection ?v (all_nodes @ nodes p') (pageInfo p')
            = Some (Inr (vars', (all_nodes @ nodes p') @ concat (map nodes (tl ps))))
          \<and> (vars' = ?v \<or> (\<exists>c. vars' = set_cursor c vars0))"
    by (rule next_page.IH[OF next_page.prems(1) next_page.prems(2)])
       (simp add: next_page.prems(2) next_page.prems(3))
  moreover obtain qs where "ps = p' # qs"
    using page_chain_hd[OF next_page.hyps(3)] by blast
  ultimately show ?case
    using next_page.hyps(1) r v
    by (subst paginate.simps) auto
qed

lemma paginate_collects:
  assumes "page_chain next_page p ps"
    and "\<And>c. next_page c = map_sum id collection (execute (set_cursor c vars0))"
    and "\<And>c c' v. set_cursor c (set_cursor c' v) = set_cursor c v"
    and "\<And>c. set_cursor c vars = set_cursor c vars0"
  shows "\<exists>vars'. paginate execute set_cursor collection vars (nodes p) (pageInfo p)
            = Some (Inr (vars', concat (map nodes ps)))
          \<and> (vars' = vars \<or> (\<exists>c. vars' = set_cursor c vars0))"
proof -
  obtain qs where "ps = p # qs"
    using page_chain_hd[OF assms(1)] by blast
  then show ?thesis
    using paginate_follows_chain[OF assms, where all_nodes = "nodes p"] by simp
qed

lemma fetch_pr_data_collects:
  assumes token: "get_github_token env = Inr token"
    and first: "client token (initial_variables owner repo pr_number) = Inr pr"
    and fs: "page_chain (files_after (client token) owner repo pr_number) (files pr) file_pages"
    and cs: "page_chain (comments_after (client token) owner repo pr_number) (comments pr) comment_pages"
    and rs: "page_chain (reviews_after (client token) owner repo pr_number) (reviews pr) review_pages"
    and ts: "page_chain (threads_after (client token) owner repo pr_number) (reviewThreads pr) thread_pages"
  shows "fetch_pr_data env client owner repo pr_number =
     Some (Inr (pr\<lparr> files := (files pr)\<lparr>nodes := concat (map nodes file_pages)\<rparr>,
                    comments := (comments pr)\<lparr>nodes := concat (map nodes comment_pages)\<rparr>,
                    reviews := (reviews pr)\<lparr>nodes := concat (map nodes review_pages)\<rparr>,
                    reviewThreads := (reviewThreads pr)\<lparr>nodes := concat (map nodes thread_pages)\<rparr> \<rparr>))"
proof -
  let ?ex = "client token"
  let ?v0 = "initial_variables owner repo pr_number"
  obtain v1 where l1: "paginate ?ex set_files_cursor files ?v0 (nodes (files pr)) (pageInfo (files pr))
       = Some (Inr (v1, concat (map nodes file_pages)))"
    and v1: "v1 = ?v0 \<or> (\<exists>c. v1 = set_files_cursor c ?v0)"
    using paginate_collects[OF fs, where collection = files and set_cursor = set_files_cursor and ?vars0.0 = ?v0 and vars = ?v0 and execute = ?ex]
    by (auto simp: files_after_def set_files_cursor_def)
  have v1': "\<And>c. set_comments_cursor c v1 = set_comments_cursor c ?v0"
    using v1 by (auto simp: set_comments_cursor_def set_files_cursor_def)
  obtain v2 where l2: "paginate ?ex set_comments_cursor comments v1 (nodes (comments pr)) (pageInfo (comments pr))
       = Some (Inr (v2, concat (map nodes comment_pages)))"
    and v2: "v2 = v1 \<or> (\<exists>c. v2 = set_comments_cursor c ?v0)"
    using paginate_collects[OF cs, where collection = comments and set_cursor = set_comments_cursor and ?vars0.0 = ?v0 and vars = v1 and execute = ?ex] v1'
    by (auto simp: comments_after_def set_comments_cursor_def initial_variables_def)
  have v2': "\<And>c. set_reviews_cursor c v2 = set_reviews_cursor c ?v0"
    using v1 v2 by (auto simp: set_reviews_cursor_def set_comments_cursor_def set_files_cursor_def)
  obtain v3 where l3: "paginate ?ex set_reviews_cursor reviews v2 (nodes (reviews pr)) (pageInfo (reviews pr))
       = Some (Inr (v3, concat (map nodes review_pages)))"
    and v3: "v3 = v2 \<or> (\<exists>c. v3 = set_reviews_cursor c ?v0)"
    using paginate_collects[OF rs, where collection = reviews and set_cursor = set_reviews_cursor and ?vars0.0 = ?v0 and vars = v2 and execute = ?ex] v2'
    by (auto simp: reviews_after_def set_reviews_cursor_def initial_variables_def)
  have v3': "\<And>c. set_threads_cursor c v3 = set_threads_cursor c ?v0"
    using v1 v2 v3
    by (auto simp: set_threads_cursor_def set_reviews_cursor_def set_comments_cursor_def set_files_cursor_def)
  obtain v4 where l4: "paginate ?ex set_threads_cursor reviewThreads v3 (nodes (reviewThreads pr)) (pageInfo (reviewThreads pr))
       = Some (Inr (v4, concat (map nodes thread_pages)))"
    using paginate_collects[OF ts, where collection = reviewThreads and set_cursor = set_threads_cursor and ?vars0.0 = ?v0 and vars = v3 and execute = ?ex] v3'
    by (auto simp: threads_after_def set_threads_cursor_def initial_variables_def)
  show ?thesis
    by (simp add: fetch_pr_data_def and_then_def token first l1 l2 l3 l4)
qed

lemma example_token: "get_github_token example_env = Inr (ascii ''ghp_example'')"
  by (simp add: get_github_token_def example_env_def ascii_def)

lemma example_first_page:
  "example_client token (initial_variables (ascii ''foo'') (ascii ''bar'') 744) = Inr example_pr"
  by (simp add: example_client_def initial_variables_def)

lemma example_file_pages:
  "page_chain (files_after (example_client token) (ascii ''foo'') (ascii ''bar'') 744) (files example_pr)
      [files example_pr, example_files_page2]"
proof -
  have "page_chain (files_after (example_client token) (ascii ''foo'') (ascii ''bar'') 744)
      example_files_page2 [example_files_page2]"
    by (rule page_chain.last_page) (simp add: example_files_page2_def)
  then show ?thesis
    by (rule page_chain.next_page[rotated 2])
       (simp_all add: example_pr_def files_after_def example_client_def initial_variables_def)
qed

lemma example_single_pages:
  "page_chain (comments_after (example_client token) (ascii ''foo'') (ascii ''bar'') 744)
      (comments example_pr) [comments example_pr]"
  "page_chain (reviews_after (example_client token) (ascii ''foo'') (ascii ''bar'') 744)
      (reviews example_pr) [reviews example_pr]"
  "page_chain (threads_after (example_client token) (ascii ''foo'') (ascii ''bar'') 744)
      (reviewThreads example_pr) [reviewThreads example_pr]"
  by (rule page_chain.last_page, simp add: example_pr_def)+

text \<open>
  Claim C1. When the token is found, the first query is answered and each of the four
  collections has a finite chain of pages (each page after the first is the API's answer
  for the end cursor of the page before, and the last one reports no further page),
  \<open>get_pr_data\<close> returns, and in the pull request it returns the nodes of the files, the
  general comments, the reviews and the review threads are the concatenation, in page
  order, of the nodes of all the pages of that chain.
\<close>

theorem get_pr_data_accumulates_all_pages:
  assumes "get_github_token env = Inr token"
    and "client token (initial_variables owner repo pr_number) = Inr pr"
    and "page_chain (files_after (client token) owner repo pr_number) (files pr) file_pages"
    and "page_chain (comments_after (client token) owner repo pr_number) (comments pr) comment_pages"
    and "page_chain (reviews_after (client token) owner repo pr_number) (reviews pr) review_pages"
    and "page_chain (threads_after (client token) owner repo pr_number) (reviewThreads pr) thread_pages"
  shows "get_pr_data env client owner repo pr_number =
     Some ([], Inr (pr\<lparr> files := (files pr)\<lparr>nodes := concat (map nodes file_pages)\<rparr>,
                        comments := (comments pr)\<lparr>nodes := concat (map nodes comment_pages)\<rparr>,
                        reviews := (reviews pr)\<lparr>nodes := concat (map nodes review_pages)\<rparr>,
                        reviewThreads := (reviewThreads pr)\<lparr>nodes := concat (map nodes thread_pages)\<rparr> \<rparr>))"
  using fetch_pr_data_collects[where client = client and token = token, OF assms]
  by (simp add: get_pr_data_def)

theorem get_pr_data_accumulates_all_pages_witness:
  "\<exists>pr. get_pr_data example_env example_client (ascii ''foo'') (ascii ''bar'') 744 = Some ([], Inr pr)
      \<and> nodes (files pr) = [example_file_a, example_file_b]
      \<and> nodes (comments pr) = [example_comment]
      \<and> nodes (reviews pr) = [example_review_silent, example_review_approved]
      \<and> nodes (reviewThreads pr) = [example_resolved_thread, example_open_thread]"
  using get_pr_data_accumulates_all_pages[where client = example_client and token = "ascii ''ghp_example''",
      OF example_token example_first_page example_file_pages example_single_pages]
  by (simp add: example_pr_def example_files_page2_def)

text \<open>
  Claim C2, evaluated on the code. The API serves an unresolved thread whose comments
  connection reports a further page. \<open>get_pr_data\<close> returns that thread as it came, with
  the first page of comments only, and writes nothing to standard error: the warning
  exists in \<open>paginate_comments\<close> alone, which would print it for this thread, and
  \<open>get_pr_data\<close> does not call it.
\<close>

theorem get_pr_data_prints_no_warning:
  "\<exists>pr. get_pr_data example_env example_client (ascii ''foo'') (ascii ''bar'') 744 = Some ([], Inr pr)
     \<and> nodes (reviewThreads pr) = [example_resolved_thread, example_open_thread]
     \<and> hasNextPage (pageInfo (thread_comments example_open_thread))
     \<and> fst (paginate_comments (thread_comments example_open_thread)) = [truncation_warning]"
  using fetch_pr_data_collects[where client = example_client and token = "ascii ''ghp_example''",
      OF example_token example_first_page example_file_pages example_single_pages]
  by (simp add: get_pr_data_def example_pr_def paginate_comments_def example_open_thread_def)

text \<open>
  The sources of the token in their order: \<open>GITHUB_TOKEN\<close> when it is set and not empty,
  else \<open>GH_TOKEN\<close> when it is set and not empty, else the standard output of
  \<open>gh auth token\<close>, stripped. The \<open>ValueError\<close> that no token was found is raised when
  \<open>gh\<close> exits with a non-zero status; when \<open>gh\<close> cannot be started the \<open>OSError\<close> of
  \<open>subprocess.run\<close> is not caught.
\<close>

lemma get_github_token_sources:
  "get_github_token env =
     (if truthy (environ env (ascii ''GITHUB_TOKEN'')) then Inr (the (environ env (ascii ''GITHUB_TOKEN'')))
      else if truthy (environ env (ascii ''GH_TOKEN'')) then Inr (the (environ env (ascii ''GH_TOKEN'')))
      else case gh_auth_token env of
             Completed stdout \<Rightarrow> Inr (strip stdout)
           | CalledProcessError e \<Rightarrow> Inl (ValueError no_token_message)
           | NotStarted msg \<Rightarrow> Inl (OSError msg))"
  by (cases "environ env (ascii ''GITHUB_TOKEN'')"; cases "environ env (ascii ''GH_TOKEN'')")
     (auto simp: get_github_token_def Let_def split: run_result.splits)

text \<open>
  Claim C8, evaluated on the code. On a machine without the \<open>gh\<close> program and with
  neither variable set, no source yields a token and the invocation of the CLI fails, yet
  \<open>get_github_token\<close> does not fail with the error that no token was found: the
  \<open>OSError\<close> of the failed start goes through.
\<close>

theorem get_github_token_without_gh:
  "\<not> truthy (environ env_without_gh (ascii ''GITHUB_TOKEN''))
   \<and> \<not> truthy (environ env_without_gh (ascii ''GH_TOKEN''))
   \<and> get_github_token env_without_gh = Inl (OSError gh_not_found)
   \<and> get_github_token env_without_gh \<noteq> Inl (ValueError no_token_message)"
  by (simp add: get_github_token_def env_without_gh_def)

section \<open>Properties of extract_unresolved_threads\<close>

lemma extract_loop_result:
  assumes "\<forall>t\<in>set threads. \<not> isResolved t \<longrightarrow> nodes (thread_comments t) \<noteq> []"
  shows "extract_loop threads acc =
     Inr (acc @ map (\<lambda>t. unresolved_entry t (hd (nodes (thread_comments t))))
                  (filter (\<lambda>t. \<not> isResolved t) threads))"
  using assms
  by (induction threads arbitrary: acc) (auto split: list.splits)

text \<open>
  Claim C4. For every thread list of the data model, where a thread has at least one
  comment (the theorem asks it of the unresolved threads only), \<open>extract_unresolved_threads\<close>
  returns one record for each thread with \<open>isResolved\<close> false and no other, in the order of
  the input, so that the length of the output is the number of unresolved threads; the
  preview of each record is the opening comment's body up to its first line feed, cut to
  120 characters.
\<close>

theorem extract_unresolved_threads_result:
  assumes "\<forall>t\<in>set (nodes (reviewThreads pr_data)). \<not> isResolved t \<longrightarrow> nodes (thread_comments t) \<noteq> []"
  shows "\<exists>out. extract_unresolved_threads pr_data = Inr out
     \<and> length out = length (filter (\<lambda>t. \<not> isResolved t) (nodes (reviewThreads pr_data)))
     \<and> list_all2 (\<lambda>t u. \<exists>opening later.
            nodes (thread_comments t) = opening # later
          \<and> threadId u = thread_id t \<and> \<not> u_isResolved u
          \<and> allComments u = opening # later
          \<and> preview u = take 120 (takeWhile (\<lambda>c. c \<noteq> 10) (tc_body opening))
          \<and> length (preview u) \<le> 120)
         (filter (\<lambda>t. \<not> isResolved t) (nodes (reviewThreads pr_data))) out"
proof -
  let ?open = "filter (\<lambda>t. \<not> isResolved t) (nodes (reviewThreads pr_data))"
  let ?out = "map (\<lambda>t. unresolved_entry t (hd (nodes (thread_comments t)))) ?open"
  have "extract_unresolved_threads pr_data = Inr ?out"
    using extract_loop_result[OF assms, of "[]"] by (simp add: extract_unresolved_threads_def)
  moreover have "list_all2 (\<lambda>t u. \<exists>opening later.
            nodes (thread_comments t) = opening # later
          \<and> threadId u = thread_id t \<and> \<not> u_isResolved u
          \<and> allComments u = opening # later
          \<and> preview u = take 120 (takeWhile (\<lambda>c. c \<noteq> 10) (tc_body opening))
          \<and> length (preview u) \<le> 120) ?open ?out"
    unfolding list_all2_map2
  proof (rule list_all2_same[THEN iffD2], rule ballI)
    fix t assume "t \<in> set ?open"
    then have "\<not> isResolved t" "nodes (thread_comments t) \<noteq> []"
      using assms by auto
    then obtain c cs where "nodes (thread_comments t) = c # cs"
      by (cases "nodes (thread_comments t)") auto
    then show "\<exists>opening later.
            nodes (thread_comments t) = opening # later
          \<and> threadId (unresolved_entry t (hd (nodes (thread_comments t)))) = thread_id t
          \<and> \<not> u_isResolved (unresolved_entry t (hd (nodes (thread_comments t))))
          \<and> allComments (unresolved_entry t (hd (nodes (thread_comments t)))) = opening # later
          \<and> preview (unresolved_entry t (hd (nodes (thread_comments t))))
               = take 120 (takeWhile (\<lambda>c. c \<noteq> 10) (tc_body opening))
          \<and> length (preview (unresolved_entry t (hd (nodes (thread_comments t))))) \<le> 120"
      using \<open>\<not> isResolved t\<close> by (simp add: unresolved_entry_def preview_of_def)
  qed
  ultimately show ?thesis by simp
qed

theorem extract_unresolved_threads_result_witness:
  "\<exists>out. extract_unresolved_threads example_pr = Inr out \<and> length out = 1
      \<and> map preview out = [ascii ''Please rename this.'']"
proof -
  have threads: "nodes (reviewThreads example_pr) = [example_resolved_thread, example_open_thread]"
    by (simp add: example_pr_def)
  have resolved: "isResolved example_resolved_thread" "\<not> isResolved example_open_thread"
    by (simp_all add: example_resolved_thread_def example_open_thread_def)
  have cs: "nodes (thread_comments example_open_thread) = [example_thread_comment]"
    by (simp add: example_open_thread_def)
  have "\<forall>t\<in>set (nodes (reviewThreads example_pr)). \<not> isResolved t \<longrightarrow> nodes (thread_comments t) \<noteq> []"
    by (simp add: threads resolved cs)
  from extract_unresolved_threads_result[OF this]
  obtain out where out: "extract_unresolved_threads example_pr = Inr out"
    and "list_all2 (\<lambda>t u. \<exists>opening later.
            nodes (thread_comments t) = opening # later
          \<and> threadId u = thread_id t \<and> \<not> u_isResolved u
          \<and> allComments u = opening # later
          \<and> preview u = take 120 (takeWhile (\<lambda>c. c \<noteq> 10) (tc_body opening))
          \<and> length (preview u) \<le> 120) [example_open_thread] out"
    by (auto simp: threads resolved)
  then obtain u where "out = [u]"
    and "preview u = take 120 (takeWhile (\<lambda>c. c \<noteq> 10) (tc_body example_thread_comment))"
    by (auto simp: list_all2_Cons1 cs)
  moreover have "take 120 (takeWhile (\<lambda>c. c \<noteq> 10) (tc_body example_thread_comment))
      = ascii ''Please rename this.''"
    by (simp add: example_thread_comment_def ascii_def)
  ultimately show ?thesis using out by simp
qed

text \<open>
  Outside the data model, on an unresolved thread without comments, the access to the
  opening comment raises \<open>IndexError\<close>.
\<close>

lemma extract_unresolved_threads_without_comment:
  "extract_unresolved_threads example_empty_thread_pr = Inl IndexError"
  by (simp add: extract_unresolved_threads_def example_empty_thread_pr_def)

text \<open>
  Claim C9. When every review thread of the input has at least one comment,
  \<open>extract_unresolved_threads\<close> returns a list: the \<open>IndexError\<close> of the access to the
  opening comment is not reached.
\<close>

theorem extract_unresolved_threads_total:
  assumes "\<forall>t\<in>set (nodes (reviewThreads pr_data)). nodes (thread_comments t) \<noteq> []"
  shows "\<exists>out. extract_unresolved_threads pr_data = Inr out"
  using extract_loop_result[of "nodes (reviewThreads pr_data)" "[]"] assms
  by (simp add: extract_unresolved_threads_def)

theorem extract_unresolved_threads_total_witness:
  "\<exists>out. extract_unresolved_threads (example_pr\<lparr>reviewThreads :=
      (reviewThreads example_pr)\<lparr>nodes := [example_open_thread]\<rparr>\<rparr>) = Inr out"
  using extract_unresolved_threads_total[of "example_pr\<lparr>reviewThreads :=
      (reviewThreads example_pr)\<lparr>nodes := [example_open_thread]\<rparr>\<rparr>"]
  by (simp add: example_open_thread_def)

section \<open>Properties of find_remote_for_repo\<close>

lemma str_in_sublist: "str_in pat s = sublist pat s"
  by (induction s) (simp_all add: sublist_Cons_right)

lemma colon_pattern_redundant:
  assumes "str_in (ascii '':'' @ owner @ ascii ''/'' @ repo_name) u"
  shows "str_in (owner @ ascii ''/'' @ repo_name) u"
proof -
  from assms obtain ps ss where "u = ps @ (ascii '':'' @ owner @ ascii ''/'' @ repo_name) @ ss"
    unfolding str_in_sublist sublist_def by blast
  then have "u = (ps @ ascii '':'') @ (owner @ ascii ''/'' @ repo_name) @ ss"
    by simp
  then show ?thesis
    unfolding str_in_sublist sublist_def by blast
qed

text \<open>
  What the code does: \<open>find_remote_for_repo\<close> returns the name of the first remote, in
  iteration order, whose URL contains the text \<open>owner/name\<close> anywhere as a contiguous piece,
  and fails with the \<open>ValueError\<close> that no remote was found when no URL contains it. The
  second test of the source, for \<open>:owner/name\<close>, never decides: a URL that passes it passes
  the first.
\<close>

lemma find_remote_for_repo_first_containing:
  "find_remote_for_repo remote_list owner repo_name =
     (case find (\<lambda>r. sublist (owner @ ascii ''/'' @ repo_name) (remote_url r)) remote_list of
        Some r \<Rightarrow> Inr (remote_name r)
      | None \<Rightarrow> Inl (ValueError (ascii ''No remote found for '' @ owner @ ascii ''/'' @ repo_name)))"
proof (induction remote_list)
  case Nil
  show ?case by simp
next
  case (Cons r remote_list)
  show ?case
    using Cons.IH colon_pattern_redundant[of owner repo_name "remote_url r"]
    by (auto simp: str_in_sublist Let_def)
qed

text \<open>
  Claim C3, evaluated on the code. With a fork \<open>myfoo/bar\<close> listed before \<open>foo/bar\<close>,
  exactly one remote, \<open>origin\<close>, has \<open>foo/bar\<close> in its URL after a \<open>/\<close> or a \<open>:\<close>, and
  \<open>find_remote_for_repo\<close> returns the other one, \<open>fork\<close>, which does not point to
  \<open>foo/bar\<close>: the containment test does not look at what stands before the text.
\<close>

theorem find_remote_for_repo_returns_fork:
  "find_remote_for_repo example_remotes (ascii ''foo'') (ascii ''bar'') = Inr (ascii ''fork'')
   \<and> map remote_name
         (filter (\<lambda>r. segment_match (ascii ''foo'') (ascii ''bar'') (remote_url r)) example_remotes)
       = [ascii ''origin'']"
  by (simp add: example_remotes_def segment_match_def ascii_def Let_def)

section \<open>Properties of prepare_worktree\<close>









text \<open>
  For a branch name with a \<open>/\<close> whose directory under \<open>review-notes\<close> is missing, the
  third \<open>mkdir\<close> raises before the existing working tree is looked at, whatever its state.
\<close>

lemma prepare_worktree_branch_with_slash:
  "prepare_worktree (example_git_env (ascii ''feature/x'') st) (ascii ''/repo'') 744 =
     ([ Mkdir (ascii ''/repo/git-worktrees''), Mkdir (ascii ''/repo/review-notes''),
        Mkdir (ascii ''/repo/review-notes/feature/x'') ],
      Inl (OSError (ascii ''[Errno 2] No such file or directory: '' @ [39]
                    @ ascii ''/repo/review-notes/feature/x'' @ [39])))"
  by (simp add: prepare_worktree_def example_git_env_def get_pr_info_def get_repo_info_def
      followed_by_def prepare_notes_def mkdir_def containing_dir_def dirname_def path_join_def
      Let_def ascii_def)

section \<open>Properties of generate_markdown_summary\<close>

lemma lex_le_iff: "(a::nat list) \<le> b \<longleftrightarrow> a = b \<or> (a, b) \<in> lexord {(x, y). x < y}"
  by (auto simp: list_le_def list_less_def)

lemma map_insort_key:
  "map f (insort_key (\<lambda>x. k (f x)) x ys) = insort_key k (f x) (map f ys)"
  by (induction ys) auto

lemma map_sort_key: "map f (sort_key (\<lambda>x. k (f x)) xs) = sort_key k (map f xs)"
  by (induction xs) (simp_all add: map_insort_key)

lemma review_items_entries:
  "map (\<lambda>i. (item_timestamp i, item_blocks i)) (review_items rs) =
     concat (map (\<lambda>r. case review_body r of
                          None \<Rightarrow> []
                        | Some body \<Rightarrow>
                            if body = [] then []
                            else [(submittedAt r,
                                   [ Paragraph [Bold (64 # review_author r),
                                        Plain (ascii '' ('' @ submittedAt r @ ascii '') - ''
                                               @ state_label (review_state r) @ ascii '':'')],
                                     Raw body, HorizontalRule ])]) rs)"
  by (induction rs) (auto split: option.splits)

lemma timeline_entries:
  "map (\<lambda>i. (item_timestamp i, item_blocks i)) (all_timeline_items pr_data) =
     sort_key fst
       (map (\<lambda>c. (createdAt c,
                   [ Paragraph [Bold (64 # comment_author c),
                                Plain (ascii '' ('' @ createdAt c @ ascii ''):'')],
                     Raw (comment_body c), HorizontalRule ])) (nodes (comments pr_data))
        @ concat (map (\<lambda>r. case review_body r of
                          None \<Rightarrow> []
                        | Some body \<Rightarrow>
                            if body = [] then []
                            else [(submittedAt r,
                                   [ Paragraph [Bold (64 # review_author r),
                                        Plain (ascii '' ('' @ submittedAt r @ ascii '') - ''
                                               @ state_label (review_state r) @ ascii '':'')],
                                     Raw body, HorizontalRule ])]) (nodes (reviews pr_data))))"
proof -
  have "map (\<lambda>i. (item_timestamp i, item_blocks i)) (all_timeline_items pr_data)
      = sort_key fst (map (\<lambda>i. (item_timestamp i, item_blocks i))
          (map comment_item (nodes (comments pr_data)) @ review_items (nodes (reviews pr_data))))"
    unfolding all_timeline_items_def
    using map_sort_key[of "\<lambda>i. (item_timestamp i, item_blocks i)" fst] by simp
  then show ?thesis
    by (simp add: review_items_entries comment_item_def o_def)
qed

lemma document_sections:
  "generate_markdown_summary pr_data unresolved_threads =
     summary_head pr_data unresolved_threads
     @ (if all_timeline_items pr_data = [] then []
        else Heading (ascii ''Discussion & Reviews'') 2
             # concat (map snd (map (\<lambda>i. (item_timestamp i, item_blocks i)) (all_timeline_items pr_data))))
     @ unresolved_section unresolved_threads"
  by (simp add: generate_markdown_summary_def discussion_section_def discussion_heading_def o_def)

text \<open>
  Claim C5. The discussion section of the document is the heading followed by the items
  of a list \<open>rendered\<close>, each with its timestamp: one item for every general comment,
  stamped with its \<open>createdAt\<close>, and one for every review with a body, stamped with its
  \<open>submittedAt\<close>, and no other. The list is in non-decreasing order of timestamp: of two
  items, the earlier one's timestamp is equal to the later one's or lexicographically
  smaller, code point by code point.
\<close>

theorem discussion_items_in_timestamp_order:
  "\<exists>rendered.
     generate_markdown_summary pr_data unresolved_threads =
       summary_head pr_data unresolved_threads
       @ (if rendered = [] then []
          else Heading (ascii ''Discussion & Reviews'') 2 # concat (map snd rendered))
       @ unresolved_section unresolved_threads
   \<and> mset rendered =
       mset (map (\<lambda>c. (createdAt c,
                   [ Paragraph [Bold (64 # comment_author c),
                                Plain (ascii '' ('' @ createdAt c @ ascii ''):'')],
                     Raw (comment_body c), HorizontalRule ])) (nodes (comments pr_data)))
       + mset (concat (map (\<lambda>r. case review_body r of
                          None \<Rightarrow> []
                        | Some body \<Rightarrow>
                            if body = [] then []
                            else [(submittedAt r,
                                   [ Paragraph [Bold (64 # review_author r),
                                        Plain (ascii '' ('' @ submittedAt r @ ascii '') - ''
                                               @ state_label (review_state r) @ ascii '':'')],
                                     Raw body, HorizontalRule ])]) (nodes (reviews pr_data))))
   \<and> sorted_wrt (\<lambda>a b. fst a = fst b \<or> (fst a, fst b) \<in> lexord {(x, y). x < y}) rendered"
proof -
  let ?rendered = "map (\<lambda>i. (item_timestamp i, item_blocks i)) (all_timeline_items pr_data)"
  have doc: "generate_markdown_summary pr_data unresolved_threads =
       summary_head pr_data unresolved_threads
       @ (if ?rendered = [] then []
          else Heading (ascii ''Discussion & Reviews'') 2 # concat (map snd ?rendered))
       @ unresolved_section unresolved_threads"
    using document_sections[of pr_data unresolved_threads] by simp
  have "sorted (map fst ?rendered)"
    unfolding timeline_entries by simp
  then have "sorted_wrt (\<lambda>a b. fst a \<le> fst b) ?rendered"
    by (simp add: sorted_wrt_map)
  then have ord: "sorted_wrt (\<lambda>a b. fst a = fst b \<or> (fst a, fst b) \<in> lexord {(x, y). x < y}) ?rendered"
    by (simp add: lex_le_iff)
  have ms: "mset ?rendered =
       mset (map (\<lambda>c. (createdAt c,
                   [ Paragraph [Bold (64 # comment_author c),
                                Plain (ascii '' ('' @ createdAt c @ ascii ''):'')],
                     Raw (comment_body c), HorizontalRule ])) (nodes (comments pr_data)))
       + mset (concat (map (\<lambda>r. case review_body r of
                          None \<Rightarrow> []
                        | Some body \<Rightarrow>
                            if body = [] then []
                            else [(submittedAt r,
                                   [ Paragraph [Bold (64 # review_author r),
                                        Plain (ascii '' ('' @ submittedAt r @ ascii '') - ''
                                               @ state_label (review_state r) @ ascii '':'')],
                                     Raw body, HorizontalRule ])]) (nodes (reviews pr_data))))"
    unfolding timeline_entries by simp
  from doc ms ord show ?thesis by blast
qed

text \<open>
  Claim C6. The label of a review in the discussion section is a fixed function of its
  state: the five known states give their emoji and name (the emoji by its code point:
  U+2705, U+1F534, U+1F4AC, U+274C, U+23F3), and every other state gives the state
  string itself; the label stands in the review's heading paragraph after the timestamp.
\<close>

theorem review_state_label_mapping:
  "state_label (ascii ''APPROVED'') = 9989 # ascii '' APPROVED''
   \<and> state_label (ascii ''CHANGES_REQUESTED'') = 128308 # ascii '' CHANGES REQUESTED''
   \<and> state_label (ascii ''COMMENTED'') = 128172 # ascii '' COMMENTED''
   \<and> state_label (ascii ''DISMISSED'') = 10060 # ascii '' DISMISSED''
   \<and> state_label (ascii ''PENDING'') = 9203 # ascii '' PENDING''
   \<and> (st \<notin> {ascii ''APPROVED'', ascii ''CHANGES_REQUESTED'', ascii ''COMMENTED'',
               ascii ''DISMISSED'', ascii ''PENDING''} \<longrightarrow> state_label st = st)
   \<and> item_blocks (ReviewItem ts author body st)
       = [ Paragraph [Bold (64 # author),
                      Plain (ascii '' ('' @ ts @ ascii '') - '' @ state_label st @ ascii '':'')],
           Raw body, HorizontalRule ]"
  by (simp add: state_label_def state_labels_def ascii_def)

theorem review_state_label_mapping_witness:
  "state_label (ascii ''MERGED'') = ascii ''MERGED''
   \<and> state_label (ascii ''APPROVED'') = 9989 # ascii '' APPROVED''"
  using review_state_label_mapping[of "ascii ''MERGED''"]
  by (simp add: ascii_def)

lemma review_items_length:
  "length (review_items rs) = length (filter (\<lambda>r. truthy (review_body r)) rs)"
  by (induction rs) (auto split: option.splits)

lemma review_items_empty:
  "review_items rs = [] \<longleftrightarrow> \<not> (\<exists>r\<in>set rs. truthy (review_body r))"
  by (induction rs) (auto split: option.splits)

lemma all_timeline_items_empty:
  "all_timeline_items pr_data = [] \<longleftrightarrow>
     nodes (comments pr_data) = [] \<and> \<not> (\<exists>r\<in>set (nodes (reviews pr_data)). truthy (review_body r))"
proof -
  have "all_timeline_items pr_data = [] \<longleftrightarrow> length (all_timeline_items pr_data) = 0"
    by simp
  also have "\<dots> \<longleftrightarrow> nodes (comments pr_data) = [] \<and> review_items (nodes (reviews pr_data)) = []"
    by (simp add: all_timeline_items_def)
  finally show ?thesis by (simp add: review_items_empty)
qed

lemma heading_not_in_items:
  "Heading (ascii ''Discussion & Reviews'') 2 \<notin> set (concat (map item_blocks items))"
proof -
  have "Heading (ascii ''Discussion & Reviews'') 2 \<notin> set (item_blocks i)" for i
    by (cases i) simp_all
  then show ?thesis by simp
qed

lemma heading_not_in_head:
  "Heading (ascii ''Discussion & Reviews'') 2 \<notin> set (summary_head pr_data unresolved_threads)"
  by (simp add: summary_head_def ascii_def split: option.splits)

lemma heading_not_in_thread_comments:
  "Heading h 2 \<notin> set (thread_comment_blocks idx cs)"
  by (induction cs arbitrary: idx) (auto split: option.splits)

lemma heading_not_in_threads:
  "Heading h 2 \<notin> set (unresolved_thread_blocks i ts)"
  by (induction ts arbitrary: i)
     (auto simp: heading_not_in_thread_comments location_blocks_def split: option.splits)

lemma heading_not_in_unresolved:
  "Heading (ascii ''Discussion & Reviews'') 2 \<notin> set (unresolved_section unresolved_threads)"
  by (simp add: unresolved_section_def heading_not_in_threads) (simp add: ascii_def)

lemma review_items_blocks:
  "map item_blocks (review_items rs) =
     concat (map (\<lambda>r. case review_body r of
                          None \<Rightarrow> []
                        | Some body \<Rightarrow>
                            if body = [] then []
                            else [[ Paragraph [Bold (64 # review_author r),
                                        Plain (ascii '' ('' @ submittedAt r @ ascii '') - ''
                                               @ state_label (review_state r) @ ascii '':'')],
                                    Raw body, HorizontalRule ]]) rs)"
  by (induction rs) (auto split: option.splits)

text \<open>
  Claim C10. The discussion section of the document holds, in some order, the rendering
  of every general comment, whatever its body, and the rendering of a review exactly when
  the review's body is present and not empty, and nothing else; the number of its items is
  the number of comments plus the number of such reviews. The heading
  \<open>Discussion & Reviews\<close> is a block of the document exactly when there is a general
  comment or a review with a non-empty body: with neither, the document has no such
  heading anywhere.
\<close>

theorem discussion_timeline_rendered:
  "\<exists>rendered.
     generate_markdown_summary pr_data unresolved_threads =
       summary_head pr_data unresolved_threads
       @ (if rendered = [] then []
          else Heading (ascii ''Discussion & Reviews'') 2 # concat rendered)
       @ unresolved_section unresolved_threads
   \<and> mset rendered =
       mset (map (\<lambda>c. [ Paragraph [Bold (64 # comment_author c),
                                   Plain (ascii '' ('' @ createdAt c @ ascii ''):'')],
                        Raw (comment_body c), HorizontalRule ]) (nodes (comments pr_data)))
       + mset (concat (map (\<lambda>r. case review_body r of
                          None \<Rightarrow> []
                        | Some body \<Rightarrow>
                            if body = [] then []
                            else [[ Paragraph [Bold (64 # review_author r),
                                        Plain (ascii '' ('' @ submittedAt r @ ascii '') - ''
                                               @ state_label (review_state r) @ ascii '':'')],
                                    Raw body, HorizontalRule ]]) (nodes (reviews pr_data))))
   \<and> length rendered = length (nodes (comments pr_data))
         + length (filter (\<lambda>r. truthy (review_body r)) (nodes (reviews pr_data)))
   \<and> (Heading (ascii ''Discussion & Reviews'') 2
          \<in> set (generate_markdown_summary pr_data unresolved_threads) \<longleftrightarrow>
       nodes (comments pr_data) \<noteq> [] \<or> (\<exists>r\<in>set (nodes (reviews pr_data)). truthy (review_body r)))"
proof -
  let ?rendered = "map item_blocks (all_timeline_items pr_data)"
  have doc: "generate_markdown_summary pr_data unresolved_threads =
       summary_head pr_data unresolved_threads
       @ (if ?rendered = [] then []
          else Heading (ascii ''Discussion & Reviews'') 2 # concat ?rendered)
       @ unresolved_section unresolved_threads"
    by (simp add: generate_markdown_summary_def discussion_section_def discussion_heading_def)
  have eq: "map item_blocks
      (map comment_item (nodes (comments pr_data)) @ review_items (nodes (reviews pr_data))) =
       map (\<lambda>c. [ Paragraph [Bold (64 # comment_author c),
                              Plain (ascii '' ('' @ createdAt c @ ascii ''):'')],
                   Raw (comment_body c), HorizontalRule ]) (nodes (comments pr_data))
       @ concat (map (\<lambda>r. case review_body r of
                          None \<Rightarrow> []
                        | Some body \<Rightarrow>
                            if body = [] then []
                            else [[ Paragraph [Bold (64 # review_author r),
                                        Plain (ascii '' ('' @ submittedAt r @ ascii '') - ''
                                               @ state_label (review_state r) @ ascii '':'')],
                                    Raw body, HorizontalRule ]]) (nodes (reviews pr_data)))"
    by (simp add: review_items_blocks comment_item_def)
  have "mset ?rendered = mset (map item_blocks
      (map comment_item (nodes (comments pr_data)) @ review_items (nodes (reviews pr_data))))"
    by (simp add: all_timeline_items_def multiset.map_comp)
  then have ms: "mset ?rendered =
       mset (map (\<lambda>c. [ Paragraph [Bold (64 # comment_author c),
                                   Plain (ascii '' ('' @ createdAt c @ ascii ''):'')],
                        Raw (comment_body c), HorizontalRule ]) (nodes (comments pr_data)))
       + mset (concat (map (\<lambda>r. case review_body r of
                          None \<Rightarrow> []
                        | Some body \<Rightarrow>
                            if body = [] then []
                            else [[ Paragraph [Bold (64 # review_author r),
                                        Plain (ascii '' ('' @ submittedAt r @ ascii '') - ''
                                               @ state_label (review_state r) @ ascii '':'')],
                                    Raw body, HorizontalRule ]]) (nodes (reviews pr_data))))"
    unfolding eq by simp
  have len: "length ?rendered = length (nodes (comments pr_data))
         + length (filter (\<lambda>r. truthy (review_body r)) (nodes (reviews pr_data)))"
    by (simp add: all_timeline_items_def review_items_length)
  have "Heading (ascii ''Discussion & Reviews'') 2
          \<in> set (generate_markdown_summary pr_data unresolved_threads) \<longleftrightarrow>
       all_timeline_items pr_data \<noteq> []"
    by (simp add: generate_markdown_summary_def discussion_section_def discussion_heading_def
        heading_not_in_head heading_not_in_unresolved heading_not_in_items)
  then have h: "Heading (ascii ''Discussion & Reviews'') 2
          \<in> set (generate_markdown_summary pr_data unresolved_threads) \<longleftrightarrow>
       nodes (comments pr_data) \<noteq> [] \<or> (\<exists>r\<in>set (nodes (reviews pr_data)). truthy (review_body r))"
    unfolding all_timeline_items_empty by blast
  from doc ms len h show ?thesis by blast
qed

theorem discussion_timeline_rendered_witness:
  "Heading (ascii ''Discussion & Reviews'') 2 \<in> set (generate_markdown_summary example_pr [])
   \<and> Heading (ascii ''Discussion & Reviews'') 2 \<notin> set (generate_markdown_summary example_quiet_pr [])"
proof -
  have silent: "\<not> truthy (review_body example_review_silent)"
    and approved: "truthy (review_body example_review_approved)"
    by (simp_all add: example_review_silent_def example_review_approved_def ascii_def)
  from discussion_timeline_rendered[of example_pr "[]"]
  have "Heading (ascii ''Discussion & Reviews'') 2 \<in> set (generate_markdown_summary example_pr []) \<longleftrightarrow>
       nodes (comments example_pr) \<noteq> [] \<or> (\<exists>r\<in>set (nodes (reviews example_pr)). truthy (review_body r))"
    by blast
  then have 1: "Heading (ascii ''Discussion & Reviews'') 2 \<in> set (generate_markdown_summary example_pr [])"
    by (simp add: example_pr_def)
  from discussion_timeline_rendered[of example_quiet_pr "[]"]
  have "Heading (ascii ''Discussion & Reviews'') 2 \<in> set (generate_markdown_summary example_quiet_pr []) \<longleftrightarrow>
       nodes (comments example_quiet_pr) \<noteq> []
       \<or> (\<exists>r\<in>set (nodes (reviews example_quiet_pr)). truthy (review_body r))"
    by blast
  then have 2: "Heading (ascii ''Discussion & Reviews'') 2 \<notin> set (generate_markdown_summary example_quiet_pr [])"
    by (simp add: example_quiet_pr_def example_pr_def silent)
  from 1 2 show ?thesis by simp
qed


end
